theory Spec2Isabelle
  imports Complex_Main
begin

section \<open>Neon Bricks: the simulation core of \<open>src/game2.js\<close>\<close>

text \<open>
  JavaScript numbers are modelled as \<open>real\<close> (the fields that only ever hold
  integers, such as lives, score and hit-points, as \<open>int\<close>). Objects mutated in place
  become records that are passed in and returned. The canvas size, read by the source from
  the DOM (\<open>canvas.width\<close>, \<open>canvas.height\<close>), is the pair of parameters \<open>W\<close>, \<open>H\<close>.
  Drawing, sound and HUD text change no simulation state and are left out, and so are the
  fields only they read or nobody reads (colours of paddle and ball, \<open>spin\<close>,
  \<open>lastTime\<close>, \<open>pauseFlag\<close>, \<open>scoreToAdd\<close>).
\<close>

subsection \<open>Constants and helpers\<close>

definition PADDLE_Y :: "real \<Rightarrow> real" where
  "PADDLE_Y H = H - 36"

definition PADDLE_BASE_WIDTH :: real where
  "PADDLE_BASE_WIDTH = 120"

definition PADDLE_HEIGHT :: real where
  "PADDLE_HEIGHT = 16"

definition BALL_RADIUS :: real where
  "BALL_RADIUS = 6"

definition BRICK_COLS :: nat where
  "BRICK_COLS = 10"

definition BRICK_W :: "real \<Rightarrow> real" where
  "BRICK_W W = of_int \<lfloor>(W - 80) / 10\<rfloor>"

definition BRICK_H :: real where
  "BRICK_H = 22"

definition POWER_CHANCE :: real where
  "POWER_CHANCE = 0.18"

datatype STATE = READY | PLAYING | PAUSED | LEVEL_COMPLETE | GAME_OVER

definition clamp :: "real \<Rightarrow> real \<Rightarrow> real \<Rightarrow> real" where
  "clamp v a b = max a (min b v)"

text \<open>\<open>Math.hypot\<close> of two arguments.\<close>

definition hypot :: "real \<Rightarrow> real \<Rightarrow> real" where
  "hypot a b = sqrt (a * a + b * b)"

text \<open>
  \<open>Math.atan2(y, x)\<close> on real arguments: the angle in \<open>(-\<pi>, \<pi>]\<close> of the point
  \<open>(x, y)\<close>, and \<open>0\<close> at the origin.
\<close>

definition atan2 :: "real \<Rightarrow> real \<Rightarrow> real" where
  "atan2 y x =
     (if 0 < x then arctan (y / x)
      else if x < 0 then (if 0 \<le> y then arctan (y / x) + pi else arctan (y / x) - pi)
      else if 0 < y then pi / 2
      else if y < 0 then - (pi / 2)
      else 0)"

text \<open>
  \<open>randChoice(arr)\<close> with the value \<open>r\<close> that \<open>Math.random()\<close> returned. An index
  outside the array reads \<open>undefined\<close> in JavaScript.
\<close>

definition randChoice :: "real \<Rightarrow> string list \<Rightarrow> string" where
  "randChoice r arr =
     (let i = \<lfloor>r * real (length arr)\<rfloor>
      in if 0 \<le> i \<and> i < int (length arr) then arr ! nat i else ''undefined'')"

definition circleRectCollision ::
  "real \<Rightarrow> real \<Rightarrow> real \<Rightarrow> real \<Rightarrow> real \<Rightarrow> real \<Rightarrow> real \<Rightarrow> bool" where
  "circleRectCollision cx cy r rx ry rw rh =
     (let closestX = clamp cx rx (rx + rw);
          closestY = clamp cy ry (ry + rh);
          dx = cx - closestX;
          dy = cy - closestY
      in dx * dx + dy * dy < r * r + 0.0001)"

subsection \<open>Entities\<close>

record Input =
  left :: bool
  right :: bool
  launch :: bool
  pointerDown :: bool
  pointerX :: real

record Paddle =
  pd_width :: real
  pd_height :: real
  pd_x :: real
  pd_y :: real
  pd_speed :: real
  pd_expireTimer :: real

record Ball =
  bl_x :: real
  bl_y :: real
  bl_vx :: real
  bl_vy :: real
  bl_radius :: real
  bl_speed :: real
  bl_stuck :: bool

record Brick =
  br_x :: real
  br_y :: real
  br_w :: real
  br_h :: real
  br_color :: string
  br_hp :: int
  br_alive :: bool

record PowerUp =
  pu_x :: real
  pu_y :: real
  pu_type :: string
  pu_radius :: real
  pu_vy :: real
  pu_alive :: bool
  pu_duration :: real

text \<open>\<open>new Paddle()\<close>\<close>

definition Paddle_new :: "real \<Rightarrow> real \<Rightarrow> Paddle" where
  "Paddle_new W H =
     \<lparr>pd_width = PADDLE_BASE_WIDTH, pd_height = PADDLE_HEIGHT,
      pd_x = W / 2 - PADDLE_BASE_WIDTH / 2, pd_y = PADDLE_Y H,
      pd_speed = 960, pd_expireTimer = 0\<rparr>"

text \<open>\<open>Paddle.update(dt, input)\<close>\<close>

definition Paddle_update :: "real \<Rightarrow> real \<Rightarrow> Input \<Rightarrow> Paddle \<Rightarrow> Paddle" where
  "Paddle_update W dt inp p =
     (let move = (if left inp then - 1 else 0) + (if right inp then 1 else 0);
          p1 = (if pointerDown inp then
                  (let targetX = clamp (pointerX inp - pd_width p / 2) 12 (W - 12 - pd_width p)
                   in p\<lparr>pd_x := pd_x p + (targetX - pd_x p) * clamp (dt * 12) 0 1\<rparr>)
                else if move \<noteq> 0 then
                  p\<lparr>pd_x := clamp (pd_x p + move * pd_speed p * dt) 12 (W - 12 - pd_width p)\<rparr>
                else
                  p\<lparr>pd_x := clamp (pd_x p) 12 (W - 12 - pd_width p)\<rparr>)
      in if 0 < pd_expireTimer p1 then
           (let p2 = p1\<lparr>pd_expireTimer := pd_expireTimer p1 - dt\<rparr>
            in if pd_expireTimer p2 \<le> 0 then p2\<lparr>pd_width := PADDLE_BASE_WIDTH\<rparr> else p2)
         else p1)"

text \<open>\<open>Paddle.applyPower(type)\<close>\<close>

definition Paddle_applyPower :: "string \<Rightarrow> Paddle \<Rightarrow> Paddle" where
  "Paddle_applyPower ty p =
     (if ty = ''paddle'' then p\<lparr>pd_width := PADDLE_BASE_WIDTH * 1.6, pd_expireTimer := 12\<rparr>
      else p)"

text \<open>\<open>new Ball(x, y, speed)\<close>; the default speed of the source is \<open>360\<close>.\<close>

definition Ball_new :: "real \<Rightarrow> real \<Rightarrow> real \<Rightarrow> Ball" where
  "Ball_new x y speed =
     \<lparr>bl_x = x, bl_y = y, bl_vx = 0, bl_vy = 0, bl_radius = BALL_RADIUS,
      bl_speed = speed, bl_stuck = True\<rparr>"

definition Ball_attachToPaddle :: "Paddle \<Rightarrow> Ball \<Rightarrow> Ball" where
  "Ball_attachToPaddle p b =
     b\<lparr>bl_stuck := True, bl_x := pd_x p + pd_width p / 2, bl_y := pd_y p - bl_radius b - 2\<rparr>"

text \<open>\<open>Ball.update(dt)\<close>: integration and the left, right and top walls.\<close>

definition Ball_update :: "real \<Rightarrow> real \<Rightarrow> Ball \<Rightarrow> Ball" where
  "Ball_update W dt b =
     (if bl_stuck b then b
      else
        (let b1 = b\<lparr>bl_x := bl_x b + bl_vx b * dt, bl_y := bl_y b + bl_vy b * dt\<rparr>;
             b2 = (if bl_x b1 - bl_radius b1 \<le> 8
                   then b1\<lparr>bl_x := 8 + bl_radius b1, bl_vx := \<bar>bl_vx b1\<bar>\<rparr> else b1);
             b3 = (if bl_x b2 + bl_radius b2 \<ge> W - 8
                   then b2\<lparr>bl_x := W - 8 - bl_radius b2, bl_vx := - \<bar>bl_vx b2\<bar>\<rparr> else b2);
             b4 = (if bl_y b3 - bl_radius b3 \<le> 8
                   then b3\<lparr>bl_y := 8 + bl_radius b3, bl_vy := \<bar>bl_vy b3\<bar>\<rparr> else b3)
         in b4))"





text \<open>\<open>new Brick(x, y, w, h, color, hp)\<close> and \<open>Brick.hit()\<close>\<close>

definition Brick_new :: "real \<Rightarrow> real \<Rightarrow> real \<Rightarrow> real \<Rightarrow> string \<Rightarrow> int \<Rightarrow> Brick" where
  "Brick_new x y w h color hp =
     \<lparr>br_x = x, br_y = y, br_w = w, br_h = h, br_color = color, br_hp = hp, br_alive = True\<rparr>"

definition Brick_hit :: "Brick \<Rightarrow> Brick" where
  "Brick_hit k =
     (let k1 = k\<lparr>br_hp := br_hp k - 1\<rparr>
      in if br_hp k1 \<le> 0 then k1\<lparr>br_alive := False\<rparr> else k1)"

text \<open>\<open>new PowerUp(x, y, type)\<close> and \<open>PowerUp.update(dt)\<close>\<close>

definition PowerUp_new :: "real \<Rightarrow> real \<Rightarrow> string \<Rightarrow> PowerUp" where
  "PowerUp_new x y ty =
     \<lparr>pu_x = x, pu_y = y, pu_type = ty, pu_radius = 10, pu_vy = 90, pu_alive = True,
      pu_duration = (if ty = ''speed'' then 10 else if ty = ''paddle'' then 12 else 0)\<rparr>"

definition PowerUp_update :: "real \<Rightarrow> real \<Rightarrow> PowerUp \<Rightarrow> PowerUp" where
  "PowerUp_update H dt p =
     (let p1 = p\<lparr>pu_y := pu_y p + pu_vy p * dt\<rparr>
      in if pu_y p1 > H + 40 then p1\<lparr>pu_alive := False\<rparr> else p1)"

subsection \<open>The game object\<close>

text \<open>
  The fields of \<open>Game\<close> that the simulation reads or writes. \<open>rng\<close> is the state of
  \<open>Math.random\<close>: the sequence of values its next calls return; a call returns
  \<open>rng 0\<close> and leaves \<open>rng \<circ> Suc\<close>.
\<close>

record Game =
  state :: STATE
  input :: Input
  currentLevel :: int
  bricks :: "Brick list"
  paddle :: Paddle
  balls :: "Ball list"
  powerups :: "PowerUp list"
  lives :: int
  score :: int
  speedBoostTimer :: real
  multiBallTimer :: real
  rng :: "nat \<Rightarrow> real"

text \<open>\<open>Game.togglePause()\<close>\<close>

definition togglePause :: "Game \<Rightarrow> Game" where
  "togglePause g =
     (if state g = PLAYING then g\<lparr>state := PAUSED\<rparr>
      else if state g = PAUSED then g\<lparr>state := PLAYING\<rparr>
      else g)"

text \<open>\<open>Game.applyPowerUp(type)\<close>\<close>

definition multiSpawn :: "Ball \<Rightarrow> Ball list" where
  "multiSpawn b =
     (let speed = clamp (bl_speed b * 1.02) 260 920;
          a1 = atan2 (bl_vy b) (bl_vx b) + 0.18;
          a2 = atan2 (bl_vy b) (bl_vx b) - 0.18;
          b1 = (Ball_new (bl_x b + 8) (bl_y b) speed)
                 \<lparr>bl_vx := speed * cos a1, bl_vy := speed * sin a1, bl_stuck := False\<rparr>;
          b2 = (Ball_new (bl_x b - 8) (bl_y b) speed)
                 \<lparr>bl_vx := speed * cos a2, bl_vy := speed * sin a2, bl_stuck := False\<rparr>
      in [b1, b2])"

definition speedBoost :: "Ball \<Rightarrow> Ball" where
  "speedBoost b =
     (let b1 = b\<lparr>bl_speed := clamp (bl_speed b * 1.18) 300 1000\<rparr>;
          ang = atan2 (bl_vy b1) (bl_vx b1)
      in b1\<lparr>bl_vx := bl_speed b1 * cos ang, bl_vy := bl_speed b1 * sin ang\<rparr>)"

definition applyPowerUp :: "string \<Rightarrow> Game \<Rightarrow> Game" where
  "applyPowerUp ty g =
     (if ty = ''multi'' then
        (let newBalls = concat (map multiSpawn (balls g))
         in g\<lparr>balls := balls g @ newBalls, multiBallTimer := 9\<rparr>)
      else if ty = ''paddle'' then g\<lparr>paddle := Paddle_applyPower ''paddle'' (paddle g)\<rparr>
      else if ty = ''speed'' then g\<lparr>balls := map speedBoost (balls g), speedBoostTimer := 10\<rparr>
      else g)"

subsection \<open>The frame update, loop by loop\<close>

text \<open>
  First loop over the balls: a stuck ball follows the paddle and is launched when
  \<open>input.launch\<close> is set (which the launch clears); a free ball moves.
\<close>

definition launchBall :: "real \<Rightarrow> real \<Rightarrow> Ball \<Rightarrow> Ball" where
  "launchBall sbt r b =
     (let angle = - pi / 2 + (r * 0.6 - 0.3);
          b1 = b\<lparr>bl_speed := bl_speed b * (if 0 < sbt then 1.08 else 1.0)\<rparr>
      in b1\<lparr>bl_vx := bl_speed b1 * cos angle, bl_vy := bl_speed b1 * sin angle,
            bl_stuck := False\<rparr>)"

fun moveBalls :: "real \<Rightarrow> real \<Rightarrow> Ball list \<Rightarrow> Game \<Rightarrow> Ball list \<times> Game" where
  "moveBalls W dt [] g = ([], g)"
| "moveBalls W dt (b # bs) g =
     (if bl_stuck b then
        (let b1 = b\<lparr>bl_x := pd_x (paddle g) + pd_width (paddle g) / 2,
                    bl_y := pd_y (paddle g) - bl_radius b - 2\<rparr>
         in if launch (input g) then
              (let b2 = launchBall (speedBoostTimer g) (rng g 0) b1;
                   g1 = g\<lparr>input := (input g)\<lparr>launch := False\<rparr>, rng := rng g \<circ> Suc\<rparr>;
                   (bs', g') = moveBalls W dt bs g1
               in (b2 # bs', g'))
            else
              (let (bs', g') = moveBalls W dt bs g in (b1 # bs', g')))
      else
        (let (bs', g') = moveBalls W dt bs g in (Ball_update W dt b # bs', g')))"

text \<open>Second loop: ball against paddle.\<close>

definition paddleBounce :: "Paddle \<Rightarrow> real \<Rightarrow> Ball \<Rightarrow> Ball" where
  "paddleBounce p sbt b =
     (if bl_stuck b then b
      else if circleRectCollision (bl_x b) (bl_y b) (bl_radius b)
                (pd_x p) (pd_y p) (pd_width p) (pd_height p) then
        (let relative = (bl_x b - (pd_x p + pd_width p / 2)) / (pd_width p / 2);
             bounceAngle = relative * (pi / 3) - pi / 2;
             speedMultiplier = (if 0 < sbt then 1.08 else 1.0);
             b1 = b\<lparr>bl_speed := clamp (bl_speed b * speedMultiplier) 200 820\<rparr>
         in b1\<lparr>bl_vx := bl_speed b1 * cos bounceAngle, bl_vy := bl_speed b1 * sin bounceAngle,
               bl_y := pd_y p - bl_radius b1 - 1\<rparr>)
      else b)"

text \<open>
  Third loop: ball against bricks. \<open>brickBounce\<close> is the body run for a colliding
  brick: the reflection, the speed adjustment, \<open>brick.hit()\<close>, the score and the
  power-up drop. The context it changes is the score, the drops and \<open>Math.random\<close>.
\<close>

definition reflectOffBrick :: "Brick \<Rightarrow> Ball \<Rightarrow> Ball" where
  "reflectOffBrick k b =
     (let overlapX = min (bl_x b + bl_radius b - br_x k) (br_x k + br_w k - (bl_x b - bl_radius b));
          overlapY = min (bl_y b + bl_radius b - br_y k) (br_y k + br_h k - (bl_y b - bl_radius b));
          b1 = (if overlapX < overlapY then
                  (let nx = (if bl_x b < br_x k + br_w k / 2 then - 1 else 1)
                   in b\<lparr>bl_vx := - bl_vx b, bl_x := bl_x b + nx * overlapX\<rparr>)
                else
                  (let ny = (if bl_y b < br_y k + br_h k / 2 then - 1 else 1)
                   in b\<lparr>bl_vy := - bl_vy b, bl_y := bl_y b + ny * overlapY\<rparr>))
      in b1\<lparr>bl_speed := clamp (bl_speed b1 * 1.01) 220 900\<rparr>)"

definition spawnPowerUp :: "Brick \<Rightarrow> Game \<Rightarrow> Game" where
  "spawnPowerUp k g =
     (if br_alive k then g
      else if rng g 0 < POWER_CHANCE then
        (let ptype = randChoice (rng g 1) [''multi'', ''paddle'', ''speed'']
         in g\<lparr>powerups := powerups g @
                   [PowerUp_new (br_x k + br_w k / 2) (br_y k + br_h k / 2) ptype],
               rng := rng g \<circ> Suc \<circ> Suc\<rparr>)
      else g\<lparr>rng := rng g \<circ> Suc\<rparr>)"

definition brickBounce :: "Ball \<Rightarrow> Brick \<Rightarrow> Game \<Rightarrow> Ball \<times> Brick \<times> Game" where
  "brickBounce b k g =
     (let b' = reflectOffBrick k b;
          k' = Brick_hit k;
          g1 = g\<lparr>score := score g + 100\<rparr>
      in (b', k', spawnPowerUp k' g1))"

fun hitBricks :: "Ball \<Rightarrow> Brick list \<Rightarrow> Game \<Rightarrow> Ball \<times> Brick list \<times> Game" where
  "hitBricks b [] g = (b, [], g)"
| "hitBricks b (k # ks) g =
     (if \<not> br_alive k then
        (let (b', ks', g') = hitBricks b ks g in (b', k # ks', g'))
      else if circleRectCollision (bl_x b) (bl_y b) (bl_radius b)
                (br_x k) (br_y k) (br_w k) (br_h k) then
        (let (b', k', g') = brickBounce b k g in (b', k' # ks, g'))
      else
        (let (b', ks', g') = hitBricks b ks g in (b', k # ks', g')))"

fun ballsBricks :: "Ball list \<Rightarrow> Brick list \<Rightarrow> Game \<Rightarrow> Ball list \<times> Brick list \<times> Game" where
  "ballsBricks [] ks g = ([], ks, g)"
| "ballsBricks (b # bs) ks g =
     (if bl_stuck b then
        (let (bs', ks', g') = ballsBricks bs ks g in (b # bs', ks', g'))
      else
        (let (b', ks1, g1) = hitBricks b ks g;
             (bs', ks', g') = ballsBricks bs ks1 g1
         in (b' # bs', ks', g')))"

text \<open>
  Collection of the drops. The source walks the array from its last index down and
  splices; \<open>collectLoop\<close> takes the drops in that order (last first) and returns the
  ones that stay, in the same order.
\<close>

fun collectLoop :: "PowerUp list \<Rightarrow> Game \<Rightarrow> PowerUp list \<times> Game" where
  "collectLoop [] g = ([], g)"
| "collectLoop (p # ps) g =
     (if circleRectCollision (pu_x p) (pu_y p) (pu_radius p)
           (pd_x (paddle g)) (pd_y (paddle g)) (pd_width (paddle g)) (pd_height (paddle g)) then
        collectLoop ps (applyPowerUp (pu_type p) g)
      else if \<not> pu_alive p then collectLoop ps g
      else (let (kept, g') = collectLoop ps g in (p # kept, g')))"

definition collectPowerUps :: "Game \<Rightarrow> Game" where
  "collectPowerUps g =
     (let (kept, g') = collectLoop (rev (powerups g)) g in g'\<lparr>powerups := rev kept\<rparr>)"

text \<open>The sweep of lost balls.\<close>

definition sweepBalls :: "real \<Rightarrow> Game \<Rightarrow> Game" where
  "sweepBalls H g = g\<lparr>balls := filter (\<lambda>b. \<not> (bl_y b - bl_radius b > H + 8)) (balls g)\<rparr>"

text \<open>Everything of \<open>Game.update(dt)\<close> up to and including the sweep.\<close>

definition simulate :: "real \<Rightarrow> real \<Rightarrow> real \<Rightarrow> Game \<Rightarrow> Game" where
  "simulate W H dt g =
     (let g1 = g\<lparr>paddle := Paddle_update W dt (input g) (paddle g)\<rparr>;
          (bs2, g2a) = moveBalls W dt (balls g1) g1;
          g2 = g2a\<lparr>balls := bs2\<rparr>;
          g3 = g2\<lparr>balls := map (paddleBounce (paddle g2) (speedBoostTimer g2)) (balls g2)\<rparr>;
          (bs4, ks4, g4a) = ballsBricks (balls g3) (bricks g3) g3;
          g4 = g4a\<lparr>balls := bs4, bricks := ks4\<rparr>;
          g5 = g4\<lparr>powerups := map (PowerUp_update H dt) (powerups g4)\<rparr>;
          g6 = collectPowerUps g5
      in sweepBalls H g6)"

text \<open>
  Loss of a life when no ball is left. \<open>freshBall\<close> is the replacement ball:
  \<open>new Ball(..)\<close> with the default speed, then \<open>attachToPaddle\<close>.
\<close>

definition freshBall :: "Paddle \<Rightarrow> Ball" where
  "freshBall p =
     Ball_attachToPaddle p (Ball_new (pd_x p + pd_width p / 2) (pd_y p - BALL_RADIUS - 2) 360)"

definition loseLife :: "Game \<Rightarrow> Game" where
  "loseLife g =
     (if balls g = [] then
        (let g1 = g\<lparr>lives := lives g - 1\<rparr>
         in if lives g1 \<le> 0 then g1\<lparr>state := GAME_OVER\<rparr>
            else g1\<lparr>balls := balls g1 @ [freshBall (paddle g1)], state := READY\<rparr>)
      else g)"

text \<open>The level-complete check.\<close>

definition checkLevelComplete :: "Game \<Rightarrow> Game" where
  "checkLevelComplete g =
     (let remaining = length (filter br_alive (bricks g))
      in if remaining = 0 then g\<lparr>state := LEVEL_COMPLETE\<rparr> else g)"

text \<open>The timers of the active power-ups.\<close>

definition tickTimers :: "real \<Rightarrow> Game \<Rightarrow> Game" where
  "tickTimers dt g =
     (let g1 = (if 0 < speedBoostTimer g then
                  (let ga = g\<lparr>speedBoostTimer := speedBoostTimer g - dt\<rparr>
                   in if speedBoostTimer ga \<le> 0
                      then ga\<lparr>balls := map (\<lambda>b. b\<lparr>bl_speed := 360\<rparr>) (balls ga)\<rparr>
                      else ga)
                else g)
      in if 0 < multiBallTimer g1 then g1\<lparr>multiBallTimer := multiBallTimer g1 - dt\<rparr> else g1)"

text \<open>\<open>Game.update(dt)\<close>\<close>

definition update :: "real \<Rightarrow> real \<Rightarrow> real \<Rightarrow> Game \<Rightarrow> Game" where
  "update W H dt g = tickTimers dt (checkLevelComplete (loseLife (simulate W H dt g)))"

text \<open>
  One turn of \<open>Game._loop()\<close> with the elapsed time \<open>el\<close> in seconds: the step is
  capped at \<open>0.05\<close> and only the state \<open>PLAYING\<close> is simulated.
\<close>

definition loop :: "real \<Rightarrow> real \<Rightarrow> real \<Rightarrow> Game \<Rightarrow> Game" where
  "loop W H el g =
     (let dt = (if el > 0.05 then 0.05 else el)
      in if state g = PLAYING then update W H dt g else g)"

subsection \<open>Levels\<close>

text \<open>
  \<open>LevelManager._generateLevels()\<close>: the six layouts, as the lists of bricks the nested
  loops push, in push order.
\<close>

definition makeGrid :: "real \<Rightarrow> nat \<Rightarrow> nat \<Rightarrow> real \<Rightarrow> real \<Rightarrow> string list \<Rightarrow> Brick list" where
  "makeGrid W rows cols offsetX offsetY colors =
     [Brick_new (40 + real c * (BRICK_W W + 2)) (60 + real r * (BRICK_H + 6) + offsetY)
        (BRICK_W W) BRICK_H (colors ! ((r + c) mod length colors)) 1.
      r \<leftarrow> [0..<rows], c \<leftarrow> [0..<cols]]"

definition level1 :: "real \<Rightarrow> Brick list" where
  "level1 W = makeGrid W 3 BRICK_COLS 0 0 [''#ff4dd2'', ''#33e0ff'', ''#7cff6a'', ''#ffd84d'']"

definition level2 :: "real \<Rightarrow> Brick list" where
  "level2 W =
     [if (r + c) mod 2 = 0
      then Brick_new (40 + real c * (BRICK_W W + 2)) (60 + real r * (BRICK_H + 6))
             (BRICK_W W) BRICK_H ''#7cff6a'' 2
      else Brick_new (40 + real c * (BRICK_W W + 2)) (60 + real r * (BRICK_H + 6))
             (BRICK_W W) BRICK_H ''#33e0ff'' 1.
      r \<leftarrow> [0..<4], c \<leftarrow> [0..<BRICK_COLS]]"

definition level3 :: "real \<Rightarrow> Brick list" where
  "level3 W =
     [Brick_new (40 + real c * (BRICK_W W + 2)) (60 + real r * (BRICK_H + 6))
        (BRICK_W W) BRICK_H ''#ff4dd2'' (if r = 2 \<and> (4 \<le> c \<and> c \<le> 5) then 3 else 1).
      r \<leftarrow> [0..<5], c \<leftarrow> [0..<BRICK_COLS], \<not> (c < 2 \<or> c > BRICK_COLS - 3)]"

definition levelN :: "real \<Rightarrow> nat \<Rightarrow> Brick list" where
  "levelN W L =
     [Brick_new (40 + real c * (BRICK_W W + 2)) (60 + real r * (BRICK_H + 6))
        (BRICK_W W) BRICK_H ([''#33e0ff'', ''#ff4dd2'', ''#ffd84d''] ! ((r + c) mod 3))
        (1 + int ((r + c + L) div 6)).
      r \<leftarrow> [0..<3 + L - 1], c \<leftarrow> [0..<BRICK_COLS]]"

definition generateLevels :: "real \<Rightarrow> Brick list list" where
  "generateLevels W = [level1 W, level2 W, level3 W] @ map (levelN W) [4..<7]"

subsection \<open>Brick objects and the level manager\<close>

text \<open>
  Bricks are mutable objects, and whether two lists of bricks share one matters. The
  heap of brick objects is a list, a reference is an index into it, and \<open>new Brick\<close>
  appends. The level manager holds, for each level, the references of its template
  bricks. (The game object above holds its bricks by value: the bricks it gets from the
  level manager are its own, as shown below.)
\<close>

type_synonym heap = "Brick list"

type_synonym ref = nat

definition new_Brick :: "Brick \<Rightarrow> heap \<Rightarrow> ref \<times> heap" where
  "new_Brick v hp = (length hp, hp @ [v])"

fun new_Bricks :: "Brick list \<Rightarrow> heap \<Rightarrow> ref list \<times> heap" where
  "new_Bricks [] hp = ([], hp)"
| "new_Bricks (v # vs) hp =
     (let (a, hp1) = new_Brick v hp; (as, hp2) = new_Bricks vs hp1 in (a # as, hp2))"

fun new_Levels :: "Brick list list \<Rightarrow> heap \<Rightarrow> ref list list \<times> heap" where
  "new_Levels [] hp = ([], hp)"
| "new_Levels (l # ls) hp =
     (let (as, hp1) = new_Bricks l hp; (rest, hp2) = new_Levels ls hp1 in (as # rest, hp2))"

record LevelManager =
  level :: int
  levels :: "ref list list"

text \<open>\<open>new LevelManager()\<close>\<close>

definition LevelManager_new :: "real \<Rightarrow> heap \<Rightarrow> LevelManager \<times> heap" where
  "LevelManager_new W hp =
     (let (ls, hp') = new_Levels (generateLevels W) hp in (\<lparr>level = 1, levels = ls\<rparr>, hp'))"

text \<open>
  \<open>LevelManager.getBricksForLevel(n)\<close>. \<open>JSON.stringify\<close> writes the fields of each
  template brick and the reviver of \<open>JSON.parse\<close> builds a new \<open>Brick\<close> from them,
  then copies the alive flag. An index with no level makes \<open>JSON.parse(undefined)\<close>
  throw: \<open>None\<close>.
\<close>

definition revive :: "Brick \<Rightarrow> Brick" where
  "revive v = (Brick_new (br_x v) (br_y v) (br_w v) (br_h v) (br_color v) (br_hp v))
                \<lparr>br_alive := br_alive v\<rparr>"

fun reviveAll :: "ref list \<Rightarrow> heap \<Rightarrow> ref list \<times> heap" where
  "reviveAll [] hp = ([], hp)"
| "reviveAll (a # as) hp =
     (let (a', hp1) = new_Brick (revive (hp ! a)) hp; (as', hp2) = reviveAll as hp1
      in (a' # as', hp2))"

definition getBricksForLevel :: "LevelManager \<Rightarrow> int \<Rightarrow> heap \<Rightarrow> (ref list \<times> heap) option" where
  "getBricksForLevel lm n hp =
     (if 1 \<le> n \<and> n \<le> int (length (levels lm))
      then Some (reviveAll (levels lm ! nat (n - 1)) hp)
      else None)"

definition maxLevel :: "LevelManager \<Rightarrow> int" where
  "maxLevel lm = int (length (levels lm))"

text \<open>\<open>brick.hit()\<close> on the object behind a reference.\<close>

definition hitRef :: "ref \<Rightarrow> heap \<Rightarrow> heap" where
  "hitRef a hp = hp[a := Brick_hit (hp ! a)]"

text \<open>The bricks a list of references denotes.\<close>

definition deref :: "heap \<Rightarrow> ref list \<Rightarrow> Brick list" where
  "deref hp as = map (\<lambda>a. hp ! a) as"

subsection \<open>Game states used below\<close>

text \<open>
  The state \<open>new Game()\<close> builds on a canvas of \<open>W\<close> by \<open>H\<close>, with \<open>r\<close> as the future
  of \<open>Math.random\<close>: level 1, three lives, one ball on the paddle.
\<close>

definition Game_new :: "real \<Rightarrow> real \<Rightarrow> (nat \<Rightarrow> real) \<Rightarrow> Game" where
  "Game_new W H r =
     \<lparr>state = READY,
      input = \<lparr>left = False, right = False, launch = False, pointerDown = False, pointerX = 0\<rparr>,
      currentLevel = 1,
      bricks = level1 W,
      paddle = Paddle_new W H,
      balls = [Ball_attachToPaddle (Paddle_new W H)
                 (Ball_new (pd_x (Paddle_new W H) + pd_width (Paddle_new W H) / 2)
                    (pd_y (Paddle_new W H) - BALL_RADIUS - 2) 360)],
      powerups = [],
      lives = 3,
      score = 0,
      speedBoostTimer = 0,
      multiBallTimer = 0,
      rng = r\<rparr>"

text \<open>A free ball at \<open>(x, y)\<close> with velocity \<open>(vx, vy)\<close> and speed field \<open>s\<close>.\<close>

definition freeBall :: "real \<Rightarrow> real \<Rightarrow> real \<Rightarrow> real \<Rightarrow> real \<Rightarrow> Ball" where
  "freeBall x y vx vy s =
     \<lparr>bl_x = x, bl_y = y, bl_vx = vx, bl_vy = vy, bl_radius = BALL_RADIUS,
      bl_speed = s, bl_stuck = False\<rparr>"

text \<open>
  Level 1 on an 800 by 600 canvas, in play, \<open>Math.random\<close> returning \<open>1/2\<close>: one ball
  of speed 360 flying straight up, 7 pixels under the first brick of the third row.
\<close>

definition underBrick :: Game where
  "underBrick = (Game_new 800 600 (\<lambda>_. 1 / 2))
     \<lparr>state := PLAYING, balls := [freeBall 76 145 0 (- 360) 360]\<rparr>"

text \<open>
  Level 2, same canvas: the ball flies up under the second brick of the fourth row, a brick
  of two hit-points (index 31 of the layout).
\<close>

definition underToughBrick :: Game where
  "underToughBrick = (Game_new 800 600 (\<lambda>_. 1 / 2))
     \<lparr>state := PLAYING, currentLevel := 2, bricks := level2 800,
      balls := [freeBall 150 173 0 (- 360) 360]\<rparr>"


text \<open>
  The only ball falls out under the field (bottom edge at 600) in this frame; \<open>n\<close> lives
  and the bricks \<open>ks\<close>; the speed boost has 5 seconds left.
\<close>

definition lastBallFalls :: "int \<Rightarrow> Brick list \<Rightarrow> Game" where
  "lastBallFalls n ks = (Game_new 800 600 (\<lambda>_. 1 / 2))
     \<lparr>state := PLAYING, bricks := ks, balls := [freeBall 400 610 0 360 360], lives := n,
      speedBoostTimer := 5\<rparr>"

text \<open>
  The paddle rests against the right margin (\<open>x = 800 - 12 - 120\<close>) and a paddle
  power-up is about to land on it.
\<close>

definition widenAtWall :: Game where
  "widenAtWall = (Game_new 800 600 (\<lambda>_. 1 / 2))
     \<lparr>state := PLAYING, paddle := (Paddle_new 800 600)\<lparr>pd_x := 668\<rparr>,
      balls := [freeBall 400 300 0 (- 360) 360],
      powerups := [PowerUp_new 700 555 ''paddle'']\<rparr>"

text \<open>The pointer held down at \<open>x\<close>.\<close>

definition dragAt :: "real \<Rightarrow> Input" where
  "dragAt x = \<lparr>left = False, right = False, launch = False, pointerDown = True, pointerX = x\<rparr>"

section \<open>Properties\<close>

subsection \<open>Unfolding sets for evaluation\<close>

lemmas consts_defs = PADDLE_Y_def PADDLE_BASE_WIDTH_def PADDLE_HEIGHT_def BALL_RADIUS_def
  BRICK_COLS_def BRICK_W_def BRICK_H_def POWER_CHANCE_def

lemmas frame_defs = update_def simulate_def Paddle_update_def Ball_update_def paddleBounce_def
  circleRectCollision_def clamp_def reflectOffBrick_def Brick_hit_def spawnPowerUp_def
  brickBounce_def collectPowerUps_def sweepBalls_def loseLife_def checkLevelComplete_def
  tickTimers_def PowerUp_update_def applyPowerUp_def launchBall_def Paddle_applyPower_def Let_def

lemmas start_defs = Game_new_def Paddle_new_def Ball_new_def Ball_attachToPaddle_def
  freeBall_def freshBall_def PowerUp_new_def Brick_new_def

lemmas level_defs = level1_def level2_def makeGrid_def upt_rec

subsection \<open>Pause\<close>

text \<open>
  C6. \<open>togglePause()\<close> turns \<open>PLAYING\<close> into \<open>PAUSED\<close> and, called again, back into
  \<open>PLAYING\<close>; in every other state (\<open>READY\<close>, \<open>LEVEL_COMPLETE\<close>, \<open>GAME_OVER\<close>) it
  returns the game unchanged. Nothing but the state field is touched, and the function is
  total, so no call fails.
\<close>

theorem togglePause_spec:
  "togglePause (g\<lparr>state := PLAYING\<rparr>) = g\<lparr>state := PAUSED\<rparr> \<and>
   togglePause (g\<lparr>state := PAUSED\<rparr>) = g\<lparr>state := PLAYING\<rparr> \<and>
   togglePause (togglePause (g\<lparr>state := PLAYING\<rparr>)) = g\<lparr>state := PLAYING\<rparr> \<and>
   togglePause (g\<lparr>state := READY\<rparr>) = g\<lparr>state := READY\<rparr> \<and>
   togglePause (g\<lparr>state := LEVEL_COMPLETE\<rparr>) = g\<lparr>state := LEVEL_COMPLETE\<rparr> \<and>
   togglePause (g\<lparr>state := GAME_OVER\<rparr>) = g\<lparr>state := GAME_OVER\<rparr>"
  by (simp add: togglePause_def)

subsection \<open>Multi-ball\<close>

text \<open>\<open>atan2\<close> is the heading: the velocity is its magnitude times the unit vector of
  that angle.\<close>

lemma hypot_factor:
  assumes "x \<noteq> 0"
  shows "hypot x y = \<bar>x\<bar> * sqrt (1 + (y / x)\<^sup>2)"
proof -
  have "x * x + y * y = x\<^sup>2 * (1 + (y / x)\<^sup>2)"
    using assms by (simp add: power2_eq_square field_simps)
  then have "hypot x y = sqrt (x\<^sup>2 * (1 + (y / x)\<^sup>2))"
    by (simp add: hypot_def)
  then show ?thesis
    by (simp add: real_sqrt_mult)
qed

lemma sqrt_one_plus_pos: "0 < sqrt (1 + (t::real)\<^sup>2)"
  by (simp add: add_pos_nonneg)

lemma atan2_heading:
  assumes "vx \<noteq> 0 \<or> vy \<noteq> 0"
  shows "hypot vx vy * cos (atan2 vy vx) = vx \<and> hypot vx vy * sin (atan2 vy vx) = vy"
proof (cases "vx = 0")
  case True
  with assms have "vy \<noteq> 0" by simp
  with True show ?thesis
    by (cases "0 < vy") (simp_all add: atan2_def hypot_def)
next
  case False
  define t where "t = vy / vx"
  have s: "sqrt (1 + t\<^sup>2) \<noteq> 0"
    using sqrt_one_plus_pos[of t] by simp
  have h: "hypot vx vy = \<bar>vx\<bar> * sqrt (1 + t\<^sup>2)"
    using hypot_factor[OF False] by (simp add: t_def)
  have c: "hypot vx vy * cos (arctan t) = \<bar>vx\<bar>"
    using s by (simp add: h cos_arctan)
  have sn: "hypot vx vy * sin (arctan t) = \<bar>vx\<bar> * t"
    using s by (simp add: h sin_arctan)
  show ?thesis
  proof (cases "0 < vx")
    case True
    then show ?thesis
      using c sn by (simp add: atan2_def t_def[symmetric]) (simp add: t_def)
  next
    case neg: False
    with False have lt: "vx < 0" by simp
    have c': "hypot vx vy * cos (arctan t + pi) = vx" "hypot vx vy * cos (arctan t - pi) = vx"
      using c lt by (simp_all add: cos_add cos_diff)
    have s': "hypot vx vy * sin (arctan t + pi) = vy" "hypot vx vy * sin (arctan t - pi) = vy"
      using sn lt False by (simp_all add: sin_add sin_diff t_def)
    show ?thesis
      using lt c' s' by (simp add: atan2_def t_def[symmetric])
  qed
qed

lemma multiSpawn_length: "length (multiSpawn b) = 2"
  by (simp add: multiSpawn_def Let_def)

lemma length_concat_multiSpawn: "length (concat (map multiSpawn bs)) = 2 * length bs"
  by (induction bs) (simp_all add: multiSpawn_length)

lemma nth_concat_multiSpawn:
  "i < length bs \<Longrightarrow>
     concat (map multiSpawn bs) ! (2 * i) = multiSpawn (bs ! i) ! 0 \<and>
     concat (map multiSpawn bs) ! (2 * i + 1) = multiSpawn (bs ! i) ! 1"
proof (induction bs arbitrary: i)
  case Nil
  then show ?case by simp
next
  case (Cons b bs)
  show ?case
  proof (cases i)
    case 0
    then show ?thesis by (simp add: nth_append multiSpawn_length)
  next
    case (Suc j)
    with Cons.prems have "j < length bs" by simp
    from Cons.IH[OF this] Suc show ?thesis
      by (simp add: nth_append multiSpawn_length)
  qed
qed

text \<open>
  C7. Collecting a multi-ball power-up keeps the balls in play and appends two new balls
  for each of them, so \<open>n\<close> balls become \<open>3n\<close> (one ball becomes three). The two balls
  spawned from ball \<open>i\<close> sit 8 pixels right and left of it, are free, have the speed
  \<open>clamp(1.02 * speed, 260, 920)\<close> and fly at the source ball's heading
  \<open>atan2(vy, vx)\<close> plus and minus \<open>0.18\<close>.
\<close>

theorem multiBall_spec:
  "length (balls (applyPowerUp ''multi'' g)) = 3 * length (balls g) \<and>
   take (length (balls g)) (balls (applyPowerUp ''multi'' g)) = balls g \<and>
   (\<forall>i < length (balls g).
      let b = balls g ! i;
          s = clamp (bl_speed b * 1.02) 260 920;
          a = atan2 (bl_vy b) (bl_vx b)
      in 260 \<le> s \<and> s \<le> 920 \<and>
         balls (applyPowerUp ''multi'' g) ! (length (balls g) + 2 * i) =
           \<lparr>bl_x = bl_x b + 8, bl_y = bl_y b, bl_vx = s * cos (a + 0.18),
            bl_vy = s * sin (a + 0.18), bl_radius = 6, bl_speed = s, bl_stuck = False\<rparr> \<and>
         balls (applyPowerUp ''multi'' g) ! (length (balls g) + 2 * i + 1) =
           \<lparr>bl_x = bl_x b - 8, bl_y = bl_y b, bl_vx = s * cos (a - 0.18),
            bl_vy = s * sin (a - 0.18), bl_radius = 6, bl_speed = s, bl_stuck = False\<rparr>)"
proof (intro conjI allI impI)
  show "length (balls (applyPowerUp ''multi'' g)) = 3 * length (balls g)"
    by (simp add: applyPowerUp_def length_concat_multiSpawn)
  show "take (length (balls g)) (balls (applyPowerUp ''multi'' g)) = balls g"
    by (simp add: applyPowerUp_def)
next
  fix i assume i: "i < length (balls g)"
  have new: "balls (applyPowerUp ''multi'' g) = balls g @ concat (map multiSpawn (balls g))"
    by (simp add: applyPowerUp_def)
  have sp: "multiSpawn b ! 0 = \<lparr>bl_x = bl_x b + 8, bl_y = bl_y b,
               bl_vx = clamp (bl_speed b * 1.02) 260 920 * cos (atan2 (bl_vy b) (bl_vx b) + 0.18),
               bl_vy = clamp (bl_speed b * 1.02) 260 920 * sin (atan2 (bl_vy b) (bl_vx b) + 0.18),
               bl_radius = 6, bl_speed = clamp (bl_speed b * 1.02) 260 920, bl_stuck = False\<rparr> \<and>
            multiSpawn b ! 1 = \<lparr>bl_x = bl_x b - 8, bl_y = bl_y b,
               bl_vx = clamp (bl_speed b * 1.02) 260 920 * cos (atan2 (bl_vy b) (bl_vx b) - 0.18),
               bl_vy = clamp (bl_speed b * 1.02) 260 920 * sin (atan2 (bl_vy b) (bl_vx b) - 0.18),
               bl_radius = 6, bl_speed = clamp (bl_speed b * 1.02) 260 920, bl_stuck = False\<rparr>" for b
    by (simp add: multiSpawn_def Let_def Ball_new_def BALL_RADIUS_def)
  have band: "260 \<le> clamp v 260 920 \<and> clamp v 260 920 \<le> 920" for v
    by (simp add: clamp_def)
  from nth_concat_multiSpawn[OF i] sp[of "balls g ! i"] band
  show "let b = balls g ! i;
          s = clamp (bl_speed b * 1.02) 260 920;
          a = atan2 (bl_vy b) (bl_vx b)
      in 260 \<le> s \<and> s \<le> 920 \<and>
         balls (applyPowerUp ''multi'' g) ! (length (balls g) + 2 * i) =
           \<lparr>bl_x = bl_x b + 8, bl_y = bl_y b, bl_vx = s * cos (a + 0.18),
            bl_vy = s * sin (a + 0.18), bl_radius = 6, bl_speed = s, bl_stuck = False\<rparr> \<and>
         balls (applyPowerUp ''multi'' g) ! (length (balls g) + 2 * i + 1) =
           \<lparr>bl_x = bl_x b - 8, bl_y = bl_y b, bl_vx = s * cos (a - 0.18),
            bl_vy = s * sin (a - 0.18), bl_radius = 6, bl_speed = s, bl_stuck = False\<rparr>"
    unfolding Let_def new by (simp add: nth_append add.assoc)
qed

text \<open>One ball in flight (speed 360, straight up) becomes three.\<close>

theorem multiBall_spec_witness:
  "length (balls underBrick) = 1 \<and>
   length (balls (applyPowerUp ''multi'' underBrick)) = 3 \<and>
   balls (applyPowerUp ''multi'' underBrick) ! 0 = freeBall 76 145 0 (- 360) 360 \<and>
   map bl_x (balls (applyPowerUp ''multi'' underBrick)) = [76, 84, 68] \<and>
   map bl_speed (balls (applyPowerUp ''multi'' underBrick)) = [360, 367.2, 367.2]"
proof -
  have b: "balls underBrick = [freeBall 76 145 0 (- 360) 360]"
    by (simp add: underBrick_def)
  from multiBall_spec[of underBrick]
  have l: "length (balls (applyPowerUp ''multi'' underBrick)) = 3"
    and t: "take 1 (balls (applyPowerUp ''multi'' underBrick)) = balls underBrick"
    and n1: "bl_x (balls (applyPowerUp ''multi'' underBrick) ! Suc 0) = 84"
            "bl_speed (balls (applyPowerUp ''multi'' underBrick) ! Suc 0) = 367.2"
    and n2: "bl_x (balls (applyPowerUp ''multi'' underBrick) ! Suc (Suc 0)) = 68"
            "bl_speed (balls (applyPowerUp ''multi'' underBrick) ! Suc (Suc 0)) = 367.2"
    by (simp_all add: b freeBall_def Let_def clamp_def)
  from l obtain x y z where xyz: "balls (applyPowerUp ''multi'' underBrick) = [x, y, z]"
    by (auto simp: length_Suc_conv numeral_3_eq_3)
  with t b n1 n2 show ?thesis
    by (simp add: freeBall_def)
qed

subsection \<open>Velocity and speed\<close>

lemma hypot_polar: "0 \<le> s \<Longrightarrow> hypot (s * cos a) (s * sin a) = s"
proof -
  assume s: "0 \<le> s"
  have "s * cos a * (s * cos a) + s * sin a * (s * sin a) =
          s * s * (cos a * cos a) + s * s * (sin a * sin a)"
    by simp
  also have "\<dots> = s * s * (cos a * cos a + sin a * sin a)"
    by (simp only: distrib_left)
  also have "\<dots> = s * s"
    by simp
  finally show ?thesis
    using s by (simp add: hypot_def)
qed

text \<open>Launch, paddle bounce and the speed boost set the velocity from the new speed.\<close>

lemma launchBall_magnitude:
  "0 \<le> bl_speed b \<Longrightarrow>
     hypot (bl_vx (launchBall sbt r b)) (bl_vy (launchBall sbt r b)) = bl_speed (launchBall sbt r b)"
  by (simp add: launchBall_def Let_def hypot_polar)

lemma paddleBounce_magnitude:
  assumes "\<not> bl_stuck b"
    and "circleRectCollision (bl_x b) (bl_y b) (bl_radius b) (pd_x p) (pd_y p) (pd_width p) (pd_height p)"
  shows "hypot (bl_vx (paddleBounce p sbt b)) (bl_vy (paddleBounce p sbt b)) =
           bl_speed (paddleBounce p sbt b)"
proof -
  have "0 \<le> clamp v 200 820" for v
    by (simp add: clamp_def)
  then show ?thesis
    using assms by (simp add: paddleBounce_def Let_def hypot_polar)
qed

lemma speedBoost_magnitude:
  "hypot (bl_vx (speedBoost b)) (bl_vy (speedBoost b)) = bl_speed (speedBoost b)"
proof -
  have "0 \<le> clamp v 300 1000" for v
    by (simp add: clamp_def)
  then show ?thesis
    by (simp add: speedBoost_def Let_def hypot_polar)
qed

text \<open>The walls only change the sign of a velocity component.\<close>

lemma Ball_update_magnitude:
  "hypot (bl_vx (Ball_update W dt b)) (bl_vy (Ball_update W dt b)) = hypot (bl_vx b) (bl_vy b)"
  by (simp add: Ball_update_def Let_def hypot_def)

text \<open>
  The brick bounce flips one velocity component and then raises the speed field: the
  magnitude of the velocity stays what it was while the speed becomes
  \<open>clamp(1.01 * speed, 220, 900)\<close>.
\<close>

lemma reflectOffBrick_magnitude:
  "hypot (bl_vx (reflectOffBrick k b)) (bl_vy (reflectOffBrick k b)) = hypot (bl_vx b) (bl_vy b) \<and>
   bl_speed (reflectOffBrick k b) = clamp (bl_speed b * 1.01) 220 900"
  by (simp add: reflectOffBrick_def Let_def hypot_def)

text \<open>
  The expiry of the speed boost writes 360 into the speed field of every ball and leaves
  the velocities alone.
\<close>

lemma tickTimers_velocity:
  "map bl_vx (balls (tickTimers dt g)) = map bl_vx (balls g) \<and>
   map bl_vy (balls (tickTimers dt g)) = map bl_vy (balls g)"
  by (simp add: tickTimers_def Let_def comp_def)

text \<open>
  C1, on the code: the claim holds for launch, paddle bounce, speed boost and wall bounce
  (the lemmas above) and fails at the brick bounce. A ball of speed 360 flying straight
  up under a level-1 brick leaves the frame with velocity \<open>(0, 360)\<close>, of magnitude 360,
  and speed field \<open>363.6\<close>.
\<close>

theorem speed_drift_after_brick_bounce:
  "balls underBrick = [freeBall 76 145 0 (- 360) 360] \<and>
   balls (update 800 600 (1 / 60) underBrick) = [freeBall 76 144 0 360 363.6] \<and>
   hypot (bl_vx (freeBall 76 144 0 360 363.6)) (bl_vy (freeBall 76 144 0 360 363.6)) = 360 \<and>
   bl_speed (freeBall 76 144 0 360 363.6) = 363.6"
  by (simp add: underBrick_def frame_defs start_defs level_defs consts_defs hypot_def)

subsection \<open>Brick hits and the score\<close>

lemma hitBricks_skip:
  assumes "\<forall>k\<in>set pre. \<not> br_alive k \<or>
             \<not> circleRectCollision (bl_x b) (bl_y b) (bl_radius b) (br_x k) (br_y k) (br_w k) (br_h k)"
  shows "hitBricks b (pre @ ks) g =
           (case hitBricks b ks g of (b', ks', g') \<Rightarrow> (b', pre @ ks', g'))"
  using assms by (induction pre) (auto split: prod.splits)

lemma Brick_hit_alive:
  "br_alive k \<Longrightarrow> Brick_hit k = k\<lparr>br_hp := br_hp k - 1, br_alive := (0 < br_hp k - 1)\<rparr>"
  by (simp add: Brick_hit_def Let_def)

text \<open>
  C2 as stated fails: a hit that leaves the brick alive is paid too. The ball hits a
  two-hit-point brick of level 2; the brick stays alive with one hit-point and the score
  goes from 0 to 100.
\<close>

theorem score_on_surviving_brick:
  "score underToughBrick = 0 \<and>
   score (update 800 600 (1 / 60) underToughBrick) = 100 \<and>
   br_hp (bricks underToughBrick ! 31) = 2 \<and>
   br_hp (bricks (update 800 600 (1 / 60) underToughBrick) ! 31) = 1 \<and>
   br_alive (bricks (update 800 600 (1 / 60) underToughBrick) ! 31)"
  by (simp add: underToughBrick_def frame_defs start_defs level_defs consts_defs)

text \<open>
  C2, amended. The ball is tested against the bricks in layout order; let \<open>k\<close> be the
  first alive brick it touches. Then \<open>k\<close> loses one hit-point and is marked dead exactly
  when none is left, the score grows by 100 on every such hit, whether the brick
  survives or not, and a power-up is appended, at the brick's centre, exactly when the
  brick died and \<open>Math.random()\<close> returned less than \<open>0.18\<close>. No other brick changes.
\<close>

theorem brick_hit_spec:
  assumes "\<forall>j\<in>set pre. \<not> br_alive j \<or>
             \<not> circleRectCollision (bl_x b) (bl_y b) (bl_radius b) (br_x j) (br_y j) (br_w j) (br_h j)"
    and "br_alive k"
    and "circleRectCollision (bl_x b) (bl_y b) (bl_radius b) (br_x k) (br_y k) (br_w k) (br_h k)"
  shows "case hitBricks b (pre @ k # post) g of (b', ks', g') \<Rightarrow>
           ks' = pre @ k\<lparr>br_hp := br_hp k - 1, br_alive := (0 < br_hp k - 1)\<rparr> # post \<and>
           score g' = score g + 100 \<and>
           powerups g' = powerups g @
             (if br_hp k - 1 \<le> 0 \<and> rng g 0 < POWER_CHANCE
              then [PowerUp_new (br_x k + br_w k / 2) (br_y k + br_h k / 2)
                      (randChoice (rng g 1) [''multi'', ''paddle'', ''speed''])]
              else [])"
proof -
  have "hitBricks b (k # post) g =
          (reflectOffBrick k b, Brick_hit k # post,
           spawnPowerUp (Brick_hit k) (g\<lparr>score := score g + 100\<rparr>))"
    using assms(2,3) by (simp add: brickBounce_def Let_def)
  then have "hitBricks b (pre @ k # post) g =
          (reflectOffBrick k b, pre @ Brick_hit k # post,
           spawnPowerUp (Brick_hit k) (g\<lparr>score := score g + 100\<rparr>))"
    by (simp add: hitBricks_skip[OF assms(1)])
  then show ?thesis
    using assms(2) by (simp add: Brick_hit_alive spawnPowerUp_def Let_def)
qed

lemma level2_split:
  "level2 800 = take 31 (level2 800) @ (level2 800 ! 31) # drop 32 (level2 800)"
  by (simp add: level_defs consts_defs Brick_new_def)

theorem brick_hit_spec_witness:
  "case hitBricks (freeBall 150 167 0 (- 360) 360) (level2 800) underToughBrick of
     (b', ks', g') \<Rightarrow>
       br_hp (ks' ! 31) = 1 \<and> br_alive (ks' ! 31) \<and> score g' = 100 \<and> powerups g' = []"
proof -
  let ?b = "freeBall 150 167 0 (- 360) 360"
  have pre: "\<forall>j\<in>set (take 31 (level2 800)). \<not> br_alive j \<or>
             \<not> circleRectCollision (bl_x ?b) (bl_y ?b) (bl_radius ?b) (br_x j) (br_y j) (br_w j) (br_h j)"
    by (simp add: level_defs consts_defs start_defs circleRectCollision_def clamp_def Let_def)
  have al: "br_alive (level2 800 ! 31)"
    by (simp add: level_defs consts_defs start_defs)
  have col: "circleRectCollision (bl_x ?b) (bl_y ?b) (bl_radius ?b) (br_x (level2 800 ! 31))
      (br_y (level2 800 ! 31)) (br_w (level2 800 ! 31)) (br_h (level2 800 ! 31))"
    by (simp add: level_defs consts_defs start_defs circleRectCollision_def clamp_def Let_def)
  have hp: "br_hp (level2 800 ! 31) = 2"
    by (simp add: level_defs consts_defs start_defs)
  have len: "length (level2 800) = 40"
    by (simp add: level_defs consts_defs)
  have g: "score underToughBrick = 0" "powerups underToughBrick = []"
    by (simp_all add: underToughBrick_def start_defs)
  from brick_hit_spec[OF pre al col, of "drop 32 (level2 800)" underToughBrick]
  show ?thesis
    unfolding level2_split[symmetric]
    by (auto simp: hp g nth_append len split: prod.splits)
qed

subsection \<open>Speed bands\<close>


text \<open>
  A ball the game puts on the paddle has speed 360, so its launch gives 360, or 388.8
  under the speed boost.
\<close>

lemma launch_of_fresh_ball:
  "bl_speed (launchBall sbt r (freshBall p)) = (if 0 < sbt then 388.8 else 360)"
  by (simp add: launchBall_def freshBall_def Ball_attachToPaddle_def Ball_new_def Let_def)



subsection \<open>Reflection\<close>


subsection \<open>The paddle and the margins\<close>

text \<open>
  With the keys, \<open>Paddle.update\<close> clamps the position into the margins for the width
  it starts the frame with; with the pointer it moves the position towards a clamped
  target, which keeps a position that was inside the margins inside.
\<close>

lemma Paddle_update_keys_in_range:
  assumes "\<not> pointerDown inp" and "12 \<le> W - 12 - pd_width p"
  shows "12 \<le> pd_x (Paddle_update W dt inp p) \<and>
         pd_x (Paddle_update W dt inp p) \<le> W - 12 - pd_width p"
  using assms by (simp add: Paddle_update_def Let_def clamp_def)

lemma Paddle_update_drag_in_range:
  assumes "pointerDown inp" and "12 \<le> pd_x p" and "pd_x p \<le> W - 12 - pd_width p"
  shows "12 \<le> pd_x (Paddle_update W dt inp p) \<and>
         pd_x (Paddle_update W dt inp p) \<le> W - 12 - pd_width p"
proof -
  define t where "t = clamp (pointerX inp - pd_width p / 2) 12 (W - 12 - pd_width p)"
  define f where "f = clamp (dt * 12) 0 1"
  have t: "12 \<le> t" "t \<le> W - 12 - pd_width p"
    using assms(2,3) by (simp_all add: t_def clamp_def)
  have f: "0 \<le> f" "f \<le> 1"
    by (simp_all add: f_def clamp_def)
  have x: "pd_x (Paddle_update W dt inp p) = pd_x p + (t - pd_x p) * f"
    using assms(1) by (simp add: Paddle_update_def Let_def t_def f_def)
  have conv: "pd_x p + (t - pd_x p) * f = (1 - f) * pd_x p + f * t"
    by (simp add: algebra_simps)
  have lo: "(1 - f) * 12 + f * 12 \<le> (1 - f) * pd_x p + f * t"
    using f t assms(2) by (intro add_mono mult_left_mono) simp_all
  have hi: "(1 - f) * pd_x p + f * t \<le> (1 - f) * (W - 12 - pd_width p) + f * (W - 12 - pd_width p)"
    using f t assms(3) by (intro add_mono mult_left_mono) simp_all
  have "(1 - f) * 12 + f * 12 = 12"
    by (simp add: algebra_simps)
  moreover have "(1 - f) * (W - 12 - pd_width p) + f * (W - 12 - pd_width p) = W - 12 - pd_width p"
    by (simp add: algebra_simps)
  ultimately show ?thesis
    using lo hi by (simp add: x conv)
qed

text \<open>
  C5, on the code: collecting the paddle power-up widens the paddle and leaves its
  position alone. The paddle rests at the right margin (\<open>x = 668 = 800 - 12 - 120\<close>)
  when the power-up lands: after the frame the width is 192 and \<open>x\<close> is still 668, past
  the bound \<open>800 - 12 - 192 = 596\<close>. Dragged by the pointer in the next frame, the paddle
  is eased to \<open>653.6\<close>, still past the bound.
\<close>

theorem paddle_past_margin_after_widen:
  "pd_x (paddle widenAtWall) = 800 - 12 - pd_width (paddle widenAtWall) \<and>
   paddle (update 800 600 (1 / 60) widenAtWall) =
     (paddle widenAtWall)\<lparr>pd_width := 192, pd_expireTimer := 12\<rparr> \<and>
   \<not> pd_x (paddle (update 800 600 (1 / 60) widenAtWall))
       \<le> 800 - 12 - pd_width (paddle (update 800 600 (1 / 60) widenAtWall)) \<and>
   pd_x (paddle (update 800 600 (1 / 60)
           ((update 800 600 (1 / 60) widenAtWall)\<lparr>input := dragAt 764\<rparr>))) = 653.6 \<and>
   pd_width (paddle (update 800 600 (1 / 60)
           ((update 800 600 (1 / 60) widenAtWall)\<lparr>input := dragAt 764\<rparr>))) = 192"
  by (simp add: widenAtWall_def dragAt_def frame_defs start_defs level_defs consts_defs)

subsection \<open>Losing a life\<close>

text \<open>Nothing before the bookkeeping touches the lives.\<close>

lemma moveBalls_lives: "lives (snd (moveBalls W dt bs g)) = lives g"
  by (induction bs arbitrary: g) (simp_all add: Let_def split_beta)

lemma spawnPowerUp_lives: "lives (spawnPowerUp k g) = lives g"
  by (simp add: spawnPowerUp_def Let_def)

lemma hitBricks_lives: "lives (snd (snd (hitBricks b ks g))) = lives g"
  by (induction ks) (simp_all add: Let_def split_beta brickBounce_def spawnPowerUp_lives)

lemma ballsBricks_lives: "lives (snd (snd (ballsBricks bs ks g))) = lives g"
  by (induction bs arbitrary: ks g) (simp_all add: Let_def split_beta hitBricks_lives)

lemma applyPowerUp_lives: "lives (applyPowerUp ty g) = lives g"
  by (simp add: applyPowerUp_def Let_def)

lemma collectLoop_lives: "lives (snd (collectLoop ps g)) = lives g"
  by (induction ps arbitrary: g) (simp_all add: Let_def split_beta applyPowerUp_lives)

lemma simulate_lives: "lives (simulate W H dt g) = lives g"
  by (simp add: simulate_def Let_def split_beta sweepBalls_def collectPowerUps_def
      collectLoop_lives ballsBricks_lives moveBalls_lives)


lemma tickTimers_balls:
  "\<forall>b\<in>set (balls g). bl_speed b = 360 \<Longrightarrow> balls (tickTimers dt g) = balls g"
  by (simp add: tickTimers_def Let_def map_idI)

lemma freshBall_fields:
  "freshBall p = \<lparr>bl_x = pd_x p + pd_width p / 2, bl_y = pd_y p - 8, bl_vx = 0, bl_vy = 0,
      bl_radius = 6, bl_speed = 360, bl_stuck = True\<rparr>"
  by (simp add: freshBall_def Ball_attachToPaddle_def Ball_new_def BALL_RADIUS_def)

lemma loseLife_empty:
  "balls g = [] \<Longrightarrow>
   loseLife g =
     (if lives g - 1 \<le> 0 then g\<lparr>lives := lives g - 1, state := GAME_OVER\<rparr>
      else g\<lparr>lives := lives g - 1, balls := [freshBall (paddle g)], state := READY\<rparr>)"
  by (simp add: loseLife_def Let_def)

lemma update_after_loss:
  assumes "balls (simulate W H dt g) = []"
  shows "update W H dt g =
           tickTimers dt (checkLevelComplete
             (if lives g - 1 \<le> 0
              then (simulate W H dt g)\<lparr>lives := lives g - 1, state := GAME_OVER\<rparr>
              else (simulate W H dt g)\<lparr>lives := lives g - 1,
                     balls := [freshBall (paddle (simulate W H dt g))], state := READY\<rparr>))"
    and "balls (update W H dt g) =
           (if lives g - 1 \<le> 0 then [] else [freshBall (paddle (simulate W H dt g))])"
proof -
  let ?s = "simulate W H dt g"
  have l: "loseLife ?s =
     (if lives g - 1 \<le> 0 then ?s\<lparr>lives := lives g - 1, state := GAME_OVER\<rparr>
      else ?s\<lparr>lives := lives g - 1, balls := [freshBall (paddle ?s)], state := READY\<rparr>)"
    using loseLife_empty[OF assms] by (simp add: simulate_lives)
  show "update W H dt g =
           tickTimers dt (checkLevelComplete
             (if lives g - 1 \<le> 0
              then ?s\<lparr>lives := lives g - 1, state := GAME_OVER\<rparr>
              else ?s\<lparr>lives := lives g - 1, balls := [freshBall (paddle ?s)], state := READY\<rparr>))"
    by (simp only: update_def l)
  have sp: "\<forall>b\<in>set (balls (checkLevelComplete (loseLife ?s))). bl_speed b = 360"
    using assms by (simp add: l checkLevelComplete_def Let_def freshBall_fields)
  have "balls (update W H dt g) = balls (checkLevelComplete (loseLife ?s))"
    unfolding update_def by (rule tickTimers_balls[OF sp])
  then show "balls (update W H dt g) =
           (if lives g - 1 \<le> 0 then [] else [freshBall (paddle ?s)])"
    using assms by (simp add: l checkLevelComplete_def Let_def)
qed


text \<open>The last ball falls out; level 1 is untouched.\<close>

lemma falls_out:
  "simulate 800 600 (1 / 60) (lastBallFalls n (level1 800)) =
     (lastBallFalls n (level1 800))\<lparr>balls := []\<rparr>"
  by (simp add: lastBallFalls_def frame_defs start_defs level_defs consts_defs)



text \<open>
  C10. When the simulation of a frame leaves no ball and a life remains after the
  decrement, the life-loss step creates exactly one ball: stuck, on top of the paddle's
  centre, at rest, with speed 360, whatever the speed-boost timer holds; the frame ends
  with that ball. The step takes one life and leaves the score, the level index, the
  bricks, the falling power-ups and the speed-boost timer as they were.
\<close>

theorem replacement_ball_spec:
  assumes "balls (simulate W H dt g) = []" and "0 < lives g - 1"
  shows "balls (loseLife (simulate W H dt g)) =
           [\<lparr>bl_x = pd_x (paddle (simulate W H dt g)) + pd_width (paddle (simulate W H dt g)) / 2,
             bl_y = pd_y (paddle (simulate W H dt g)) - 8, bl_vx = 0, bl_vy = 0,
             bl_radius = 6, bl_speed = 360, bl_stuck = True\<rparr>] \<and>
         balls (update W H dt g) = balls (loseLife (simulate W H dt g)) \<and>
         lives (loseLife (simulate W H dt g)) = lives g - 1 \<and>
         score (loseLife (simulate W H dt g)) = score (simulate W H dt g) \<and>
         currentLevel (loseLife (simulate W H dt g)) = currentLevel (simulate W H dt g) \<and>
         bricks (loseLife (simulate W H dt g)) = bricks (simulate W H dt g) \<and>
         powerups (loseLife (simulate W H dt g)) = powerups (simulate W H dt g) \<and>
         speedBoostTimer (loseLife (simulate W H dt g)) = speedBoostTimer (simulate W H dt g)"
  using assms update_after_loss(2)[OF assms(1)]
  by (simp add: loseLife_empty simulate_lives freshBall_fields)

theorem replacement_ball_spec_witness:
  "speedBoostTimer (lastBallFalls 3 (level1 800)) = 5 \<and>
   balls (update 800 600 (1 / 60) (lastBallFalls 3 (level1 800))) =
     [\<lparr>bl_x = 400, bl_y = 556, bl_vx = 0, bl_vy = 0, bl_radius = 6, bl_speed = 360,
       bl_stuck = True\<rparr>] \<and>
   lives (loseLife (simulate 800 600 (1 / 60) (lastBallFalls 3 (level1 800)))) = 2 \<and>
   score (loseLife (simulate 800 600 (1 / 60) (lastBallFalls 3 (level1 800)))) = 0 \<and>
   speedBoostTimer (loseLife (simulate 800 600 (1 / 60) (lastBallFalls 3 (level1 800)))) = 5"
proof -
  have e: "balls (simulate 800 600 (1 / 60) (lastBallFalls 3 (level1 800))) = []"
    by (simp add: falls_out)
  have n: "0 < lives (lastBallFalls 3 (level1 800)) - 1"
    by (simp add: lastBallFalls_def)
  from replacement_ball_spec[OF e n] show ?thesis
    by (simp add: falls_out) (simp add: lastBallFalls_def start_defs consts_defs)
qed

subsection \<open>Regenerating a level\<close>

text \<open>The reviver copies every field, and allocation appends.\<close>

lemma revive_id: "revive v = v"
  by (simp add: revive_def Brick_new_def)

lemma upt_step: "[i..<i + Suc n] = i # [Suc i..<Suc i + n]"
  using upt_conv_Cons[of i "i + Suc n"] by simp

lemma new_Bricks_eq:
  "new_Bricks vs hp = ([length hp..<length hp + length vs], hp @ vs)"
proof (induction vs arbitrary: hp)
  case Nil
  then show ?case by simp
next
  case (Cons v vs)
  show ?case
    using upt_step[of "length hp" "length vs"] by (simp add: new_Brick_def Cons.IH)
qed

lemma reviveAll_eq:
  assumes "\<forall>a\<in>set as. a < length hp"
  shows "reviveAll as hp = ([length hp..<length hp + length as], hp @ map (\<lambda>a. hp ! a) as)"
  using assms
proof (induction as arbitrary: hp)
  case Nil
  then show ?case by simp
next
  case (Cons a as)
  let ?hp1 = "hp @ [hp ! a]"
  have old: "\<forall>b\<in>set as. b < length ?hp1" "\<forall>b\<in>set as. ?hp1 ! b = hp ! b"
    using Cons.prems by (simp_all add: nth_append less_Suc_eq)
  have m: "map (\<lambda>b. ?hp1 ! b) as = map (\<lambda>b. hp ! b) as"
    using old(2) by simp
  show ?case
    using Cons.IH[OF old(1)] upt_step[of "length hp" "length as"]
    by (simp add: new_Brick_def revive_id m)
qed

lemma deref_fresh:
  "deref (hp @ vs) [length hp..<length hp + length vs] = vs"
proof (rule nth_equalityI)
  show "length (deref (hp @ vs) [length hp..<length hp + length vs]) = length vs"
    by (simp add: deref_def)
next
  fix i assume "i < length (deref (hp @ vs) [length hp..<length hp + length vs])"
  then have "i < length vs"
    by (simp add: deref_def)
  then show "deref (hp @ vs) [length hp..<length hp + length vs] ! i = vs ! i"
    by (simp add: deref_def)
qed

lemma deref_old:
  "\<forall>a\<in>set as. a < length hp \<Longrightarrow> deref (hp @ vs) as = deref hp as"
  by (simp add: deref_def nth_append)

lemma deref_update_other:
  "a \<notin> set as \<Longrightarrow> deref (hp[a := v]) as = deref hp as"
proof -
  assume "a \<notin> set as"
  then have "\<forall>x\<in>set as. hp[a := v] ! x = hp ! x"
    by (metis nth_list_update_neq)
  then show ?thesis
    by (simp add: deref_def)
qed

text \<open>
  The level manager the constructor builds: six levels, every template reference valid,
  and the templates hold the generated layouts.
\<close>

lemma new_Levels_spec:
  "new_Levels ls hp = (rs, hp') \<Longrightarrow>
     hp' = hp @ concat ls \<and> length rs = length ls \<and>
     (\<forall>i<length ls. deref hp' (rs ! i) = ls ! i) \<and>
     (\<forall>l\<in>set rs. \<forall>a\<in>set l. a < length hp')"
proof (induction ls arbitrary: hp rs hp')
  case Nil
  then show ?case by simp
next
  case (Cons l ls)
  let ?as = "[length hp..<length hp + length l]"
  obtain rest hp2 where rec: "new_Levels ls (hp @ l) = (rest, hp2)"
    by (cases "new_Levels ls (hp @ l)")
  from Cons.prems rec have rs: "rs = ?as # rest" and hp': "hp' = hp2"
    by (simp_all add: new_Bricks_eq)
  from Cons.IH[OF rec] have ih:
    "hp2 = (hp @ l) @ concat ls" "length rest = length ls"
    "\<forall>i<length ls. deref hp2 (rest ! i) = ls ! i"
    "\<forall>m\<in>set rest. \<forall>a\<in>set m. a < length hp2"
    by blast+
  have inb: "\<forall>a\<in>set ?as. a < length (hp @ l)"
    by simp
  have first: "deref hp2 ?as = l"
    using deref_old[OF inb, of "concat ls"] deref_fresh[of hp l] by (simp add: ih(1))
  have nth: "deref hp2 ((?as # rest) ! i) = (l # ls) ! i" if "i < length (l # ls)" for i
    using that first ih(3) by (cases i) simp_all
  have bound: "\<forall>a\<in>set ?as. a < length hp2"
    by (simp add: ih(1))
  show ?case
    using ih(1,2,4) nth bound by (simp add: rs hp')
qed

lemma LevelManager_new_spec:
  assumes "LevelManager_new W hp0 = (lm, hp)"
  shows "(\<forall>l\<in>set (levels lm). \<forall>a\<in>set l. a < length hp) \<and> maxLevel lm = 6 \<and>
         (\<forall>i<6. deref hp (levels lm ! i) = generateLevels W ! i)"
proof -
  obtain rs hp' where nl: "new_Levels (generateLevels W) hp0 = (rs, hp')"
    by (cases "new_Levels (generateLevels W) hp0")
  with assms have lm: "levels lm = rs" and hp: "hp = hp'"
    by (auto simp: LevelManager_new_def)
  have six: "length (generateLevels W) = 6"
    by (simp add: generateLevels_def)
  from new_Levels_spec[OF nl]
  have "length rs = length (generateLevels W)"
    and "\<forall>i<length (generateLevels W). deref hp' (rs ! i) = generateLevels W ! i"
    and "\<forall>l\<in>set rs. \<forall>a\<in>set l. a < length hp'"
    by blast+
  then show ?thesis
    using six by (simp add: lm hp maxLevel_def)
qed

text \<open>
  C8. Let the template references of the level manager be valid in the heap and \<open>n\<close>
  be a valid level index. Then two calls of \<open>getBricksForLevel(n)\<close> in a row both
  return; each result has as many bricks as the template, with the template's values
  (position, size, colour, hit-points, alive flag); the references of the two results are
  valid, pairwise distinct, and none of them is a template reference of any level; the
  templates are as before. Writing a brick of one result (in particular \<open>hit()\<close> on
  it) changes no brick of the other result and no template.
\<close>

theorem getBricksForLevel_fresh:
  assumes wf: "\<forall>l\<in>set (levels lm). \<forall>a\<in>set l. a < length hp"
    and n: "1 \<le> n" "n \<le> maxLevel lm"
  shows "\<exists>as1 hp1 as2 hp2.
           getBricksForLevel lm n hp = Some (as1, hp1) \<and>
           getBricksForLevel lm n hp1 = Some (as2, hp2) \<and>
           length as1 = length (levels lm ! nat (n - 1)) \<and>
           length as2 = length (levels lm ! nat (n - 1)) \<and>
           deref hp2 as1 = deref hp (levels lm ! nat (n - 1)) \<and>
           deref hp2 as2 = deref hp (levels lm ! nat (n - 1)) \<and>
           distinct (as1 @ as2) \<and>
           (\<forall>a\<in>set (as1 @ as2). a < length hp2) \<and>
           (\<forall>l\<in>set (levels lm). set (as1 @ as2) \<inter> set l = {} \<and> deref hp2 l = deref hp l) \<and>
           (\<forall>a\<in>set as1. \<forall>v.
              deref (hp2[a := v]) as2 = deref hp2 as2 \<and>
              deref (hitRef a hp2) as2 = deref hp2 as2 \<and>
              (\<forall>l\<in>set (levels lm). deref (hp2[a := v]) l = deref hp2 l)) \<and>
           (\<forall>a\<in>set as2. \<forall>v.
              deref (hp2[a := v]) as1 = deref hp2 as1 \<and>
              deref (hitRef a hp2) as1 = deref hp2 as1 \<and>
              (\<forall>l\<in>set (levels lm). deref (hp2[a := v]) l = deref hp2 l))"
proof -
  define t where "t = levels lm ! nat (n - 1)"
  define k where "k = length t"
  define vs where "vs = deref hp t"
  define as1 where "as1 = [length hp..<length hp + k]"
  define hp1 where "hp1 = hp @ vs"
  define as2 where "as2 = [length hp1..<length hp1 + k]"
  define hp2 where "hp2 = hp1 @ vs"
  have tin: "t \<in> set (levels lm)"
    using n by (simp add: t_def maxLevel_def)
  have t0: "\<forall>a\<in>set t. a < length hp"
    using wf tin by blast
  have lv: "length vs = k"
    by (simp add: vs_def deref_def k_def)
  have t1: "\<forall>a\<in>set t. a < length hp1"
    using t0 by (auto simp: hp1_def)
  have d1: "deref hp1 t = vs"
    using deref_old[OF t0] by (simp add: hp1_def vs_def)
  have g1: "getBricksForLevel lm n hp = Some (as1, hp1)"
    using n reviveAll_eq[OF t0]
    by (simp add: getBricksForLevel_def maxLevel_def t_def[symmetric] as1_def hp1_def vs_def
        deref_def k_def)
  have g2: "getBricksForLevel lm n hp1 = Some (as2, hp2)"
    using n reviveAll_eq[OF t1] d1
    by (simp add: getBricksForLevel_def maxLevel_def t_def[symmetric] as2_def hp2_def
        deref_def k_def)
  have a1: "\<forall>a\<in>set as1. a < length hp1"
    by (simp add: as1_def hp1_def lv)
  have c1: "deref hp2 as1 = vs"
    using deref_old[OF a1, of vs] deref_fresh[of hp vs] by (simp add: hp2_def as1_def hp1_def lv)
  have c2: "deref hp2 as2 = vs"
    using deref_fresh[of hp1 vs] by (simp add: hp2_def as2_def lv)
  have dis: "distinct (as1 @ as2)"
    by (auto simp: as1_def as2_def hp1_def lv)
  have lev: "set (as1 @ as2) \<inter> set l = {} \<and> deref hp2 l = deref hp l"
    if "l \<in> set (levels lm)" for l
  proof -
    have l0: "\<forall>a\<in>set l. a < length hp"
      using wf that by blast
    then have l1: "\<forall>a\<in>set l. a < length hp1"
      by (auto simp: hp1_def)
    have "set (as1 @ as2) \<inter> set l = {}"
      using l0 by (auto simp: as1_def as2_def hp1_def)
    moreover have "deref hp2 l = deref hp l"
      using deref_old[OF l1, of vs] deref_old[OF l0, of vs] by (simp add: hp2_def hp1_def)
    ultimately show ?thesis by simp
  qed
  have m1: "deref (hp2[a := v]) as2 = deref hp2 as2 \<and>
            deref (hitRef a hp2) as2 = deref hp2 as2 \<and>
            (\<forall>l\<in>set (levels lm). deref (hp2[a := v]) l = deref hp2 l)"
    if "a \<in> set as1" for a v
  proof -
    have "a \<notin> set as2"
      using dis that by auto
    moreover have "a \<notin> set l" if "l \<in> set (levels lm)" for l
      using lev[OF that] \<open>a \<in> set as1\<close> by auto
    ultimately show ?thesis
      by (simp add: deref_update_other hitRef_def)
  qed
  have m2: "deref (hp2[a := v]) as1 = deref hp2 as1 \<and>
            deref (hitRef a hp2) as1 = deref hp2 as1 \<and>
            (\<forall>l\<in>set (levels lm). deref (hp2[a := v]) l = deref hp2 l)"
    if "a \<in> set as2" for a v
  proof -
    have "a \<notin> set as1"
      using dis that by auto
    moreover have "a \<notin> set l" if "l \<in> set (levels lm)" for l
      using lev[OF that] \<open>a \<in> set as2\<close> by auto
    ultimately show ?thesis
      by (simp add: deref_update_other hitRef_def)
  qed
  have len: "length as1 = k" "length as2 = k"
    by (simp_all add: as1_def as2_def)
  have val: "\<forall>a\<in>set (as1 @ as2). a < length hp2"
    by (auto simp: as1_def as2_def hp2_def hp1_def lv)
  show ?thesis
    using g1 g2 len c1 c2 dis val lev m1 m2
    unfolding t_def[symmetric] k_def[symmetric] vs_def[symmetric]
    by (intro exI[of _ as1] exI[of _ hp1] exI[of _ as2] exI[of _ hp2]) (simp add: k_def)
qed


text \<open>
  On the constructor's manager, level 2 twice: hitting the first brick of the first copy
  takes it from two hit-points to one; the second copy and the template still are the
  generated layout.
\<close>

theorem getBricksForLevel_fresh_witness:
  "case LevelManager_new 800 [] of (lm, hp) \<Rightarrow>
     (case getBricksForLevel lm 2 hp of
        None \<Rightarrow> False
      | Some (as1, hp1) \<Rightarrow>
          (case getBricksForLevel lm 2 hp1 of
             None \<Rightarrow> False
           | Some (as2, hp2) \<Rightarrow>
               length as1 = 40 \<and> deref hp2 as1 = level2 800 \<and> deref hp2 as2 = level2 800 \<and>
               br_hp (hp2 ! (as1 ! 0)) = 2 \<and>
               br_hp (hitRef (as1 ! 0) hp2 ! (as1 ! 0)) = 1 \<and>
               deref (hitRef (as1 ! 0) hp2) as2 = level2 800 \<and>
               deref (hitRef (as1 ! 0) hp2) (levels lm ! 1) = level2 800))"
proof -
  obtain lm hp where new: "LevelManager_new 800 [] = (lm, hp)"
    by (cases "LevelManager_new 800 []")
  from LevelManager_new_spec[OF new]
  have wf: "\<forall>l\<in>set (levels lm). \<forall>a\<in>set l. a < length hp"
    and mx: "maxLevel lm = 6"
    and l2: "deref hp (levels lm ! 1) = level2 800"
    by (simp_all add: generateLevels_def)
  have n: "(1::int) \<le> 2" "2 \<le> maxLevel lm"
    by (simp_all add: mx)
  have t: "levels lm ! 1 \<in> set (levels lm)"
    using mx by (simp add: maxLevel_def)
  have len: "length (level2 800) = 40"
    by (simp add: level_defs consts_defs)
  from getBricksForLevel_fresh[OF wf n]
  obtain as1 hp1 as2 hp2 where all:
    "getBricksForLevel lm 2 hp = Some (as1, hp1) \<and>
     getBricksForLevel lm 2 hp1 = Some (as2, hp2) \<and>
     length as1 = length (levels lm ! nat (2 - 1)) \<and>
     length as2 = length (levels lm ! nat (2 - 1)) \<and>
     deref hp2 as1 = deref hp (levels lm ! nat (2 - 1)) \<and>
     deref hp2 as2 = deref hp (levels lm ! nat (2 - 1)) \<and>
     distinct (as1 @ as2) \<and>
     (\<forall>a\<in>set (as1 @ as2). a < length hp2) \<and>
     (\<forall>l\<in>set (levels lm). set (as1 @ as2) \<inter> set l = {} \<and> deref hp2 l = deref hp l) \<and>
     (\<forall>a\<in>set as1. \<forall>v.
        deref (hp2[a := v]) as2 = deref hp2 as2 \<and>
        deref (hitRef a hp2) as2 = deref hp2 as2 \<and>
        (\<forall>l\<in>set (levels lm). deref (hp2[a := v]) l = deref hp2 l)) \<and>
     (\<forall>a\<in>set as2. \<forall>v.
        deref (hp2[a := v]) as1 = deref hp2 as1 \<and>
        deref (hitRef a hp2) as1 = deref hp2 as1 \<and>
        (\<forall>l\<in>set (levels lm). deref (hp2[a := v]) l = deref hp2 l))"
    by blast
  have g: "getBricksForLevel lm 2 hp = Some (as1, hp1)" "getBricksForLevel lm 2 hp1 = Some (as2, hp2)"
    using all by blast+
  have c: "deref hp2 as1 = level2 800" "deref hp2 as2 = level2 800"
    using all l2 by simp_all
  have lev: "\<forall>l\<in>set (levels lm). deref hp2 l = deref hp l"
    using all by blast
  have m: "\<forall>a\<in>set as1. \<forall>v.
              deref (hitRef a hp2) as2 = deref hp2 as2 \<and>
              (\<forall>l\<in>set (levels lm). deref (hp2[a := v]) l = deref hp2 l)"
    using all by blast
  have l1: "length as1 = 40"
    using c(1) len by (metis deref_def length_map)
  then have a: "as1 ! 0 \<in> set as1"
    by simp
  have tm: "deref hp2 (levels lm ! 1) = level2 800"
    using lev t l2 by simp
  have h: "deref (hitRef (as1 ! 0) hp2) as2 = level2 800"
    using m a c(2) by simp
  have "deref (hp2[as1 ! 0 := Brick_hit (hp2 ! (as1 ! 0))]) (levels lm ! 1) = deref hp2 (levels lm ! 1)"
    using m a t by blast
  then have ht: "deref (hitRef (as1 ! 0) hp2) (levels lm ! 1) = level2 800"
    using tm by (simp add: hitRef_def)
  have v: "as1 ! 0 < length hp2"
    using all a by simp
  have "deref hp2 as1 ! 0 = level2 800 ! 0"
    by (simp add: c(1))
  then have b0: "hp2 ! (as1 ! 0) = level2 800 ! 0"
    using l1 by (simp add: deref_def)
  have hp0: "br_hp (level2 800 ! 0) = 2" "br_hp (Brick_hit (level2 800 ! 0)) = 1"
    by (simp_all add: level_defs consts_defs Brick_new_def Brick_hit_def Let_def)
  have hit: "br_hp (hp2 ! (as1 ! 0)) = 2" "br_hp (hitRef (as1 ! 0) hp2 ! (as1 ! 0)) = 1"
    using v hp0 by (simp_all add: hitRef_def b0)
  show ?thesis
    using g c l1 h ht hit by (simp add: new)
qed

end
